theory Spec2Isabelle
  imports Complex_Main
begin

section \<open>The collision scene manager of \<^verbatim>\<open>src/fignet/collision.py\<close>\<close>

text \<open>
  The class \<^verbatim>\<open>CollisionManager\<close> keeps a registry of named meshes, the collision
  objects built from them, the transform last applied to each name, and the reverse
  table from geometry identifiers to names. The methods are embedded as functions from
  a state to an outcome and a new state; a raised exception is a value of \<open>error\<close>,
  returned together with the state the exception leaves behind.

  An entry of an array is a number and is taken as a real: every finite float64 and
  every int64 is one. The numerical operations the manager calls on arrays round (or
  wrap) their results, and they belong to libraries outside the repository: the matrix
  product \<^verbatim>\<open>@\<close>, \<^verbatim>\<open>np.linalg.inv\<close>, the mesh's \<^verbatim>\<open>apply_transform\<close>, and the
  engine's test of a bounding box in \<^verbatim>\<open>update()\<close>. They are parameters of the model,
  collected in the record \<open>externals\<close>; a statement about the manager holds for every
  choice of them unless it names one. The definitions of this first part compute in
  exact arithmetic and make up the one instance \<open>exact\<close>, on which the statements are
  evaluated at concrete scenes: there every entry is a small integer, and float64
  computes on those without rounding.
\<close>

subsection \<open>Vectors, matrices and arrays\<close>

datatype vec3 = Vec3 real real real

datatype mat3 = Mat3 vec3 vec3 vec3

datatype vec4 = Vec4 real real real real

text \<open>A 4x4 matrix, given by its rows.\<close>

datatype mat4 = Mat4 vec4 vec4 vec4 vec4

text \<open>
  A numpy array as \<^verbatim>\<open>add_object\<close> may receive it: its \<^verbatim>\<open>shape\<close> and its entries in
  row-major order. numpy keeps the number of entries equal to the product of the shape.
\<close>

datatype ndarray = NDArray (shape: "nat list") (flat: "real list")

text \<open>\<^verbatim>\<open>np.eye(4)\<close>.\<close>

definition np_eye4 :: ndarray where
  "np_eye4 = NDArray [4, 4] [1, 0, 0, 0,  0, 1, 0, 0,  0, 0, 1, 0,  0, 0, 0, 1]"

text \<open>
  The entry \<^verbatim>\<open>a[i, j]\<close> of an array of shape (4, 4). The index is in range for every
  array of that shape; the guard only makes the function total.
\<close>

definition entry_at :: "ndarray \<Rightarrow> nat \<Rightarrow> nat \<Rightarrow> real" where
  "entry_at a i j = (if 4 * i + j < length (flat a) then flat a ! (4 * i + j) else 0)"

definition as_mat4 :: "ndarray \<Rightarrow> mat4" where
  "as_mat4 a =
     Mat4 (Vec4 (entry_at a 0 0) (entry_at a 0 1) (entry_at a 0 2) (entry_at a 0 3))
          (Vec4 (entry_at a 1 0) (entry_at a 1 1) (entry_at a 1 2) (entry_at a 1 3))
          (Vec4 (entry_at a 2 0) (entry_at a 2 1) (entry_at a 2 2) (entry_at a 2 3))
          (Vec4 (entry_at a 3 0) (entry_at a 3 1) (entry_at a 3 2) (entry_at a 3 3))"


text \<open>The slices \<^verbatim>\<open>t[:3, :3]\<close> and \<^verbatim>\<open>t[:3, 3]\<close>.\<close>

fun slice_rotation :: "mat4 \<Rightarrow> mat3" where
  "slice_rotation (Mat4 (Vec4 a0 a1 a2 a3) (Vec4 b0 b1 b2 b3) (Vec4 c0 c1 c2 c3) r3) =
     Mat3 (Vec3 a0 a1 a2) (Vec3 b0 b1 b2) (Vec3 c0 c1 c2)"

fun slice_translation :: "mat4 \<Rightarrow> vec3" where
  "slice_translation (Mat4 (Vec4 a0 a1 a2 a3) (Vec4 b0 b1 b2 b3) (Vec4 c0 c1 c2 c3) r3) =
     Vec3 a3 b3 c3"

fun bottom_row :: "mat4 \<Rightarrow> vec4" where
  "bottom_row (Mat4 r0 r1 r2 r3) = r3"

text \<open>The matrix product of two 4x4 matrices, in exact arithmetic.\<close>

fun dot4 :: "vec4 \<Rightarrow> vec4 \<Rightarrow> real" where
  "dot4 (Vec4 a b c d) (Vec4 x y z w) = a * x + b * y + c * z + d * w"

fun column :: "mat4 \<Rightarrow> nat \<Rightarrow> vec4" where
  "column (Mat4 (Vec4 a0 a1 a2 a3) (Vec4 b0 b1 b2 b3) (Vec4 c0 c1 c2 c3) (Vec4 d0 d1 d2 d3)) j =
     (if j = 0 then Vec4 a0 b0 c0 d0
      else if j = 1 then Vec4 a1 b1 c1 d1
      else if j = 2 then Vec4 a2 b2 c2 d2
      else Vec4 a3 b3 c3 d3)"

definition row_times :: "vec4 \<Rightarrow> mat4 \<Rightarrow> vec4" where
  "row_times r m =
     Vec4 (dot4 r (column m 0)) (dot4 r (column m 1)) (dot4 r (column m 2)) (dot4 r (column m 3))"

fun matmul :: "mat4 \<Rightarrow> mat4 \<Rightarrow> mat4" where
  "matmul (Mat4 r0 r1 r2 r3) m =
     Mat4 (row_times r0 m) (row_times r1 m) (row_times r2 m) (row_times r3 m)"

text \<open>
  The inverse of a 4x4 matrix in exact arithmetic, by the adjugate over the
  determinant; a singular matrix has none, and \<^verbatim>\<open>np.linalg.inv\<close> raises its
  \<^verbatim>\<open>LinAlgError\<close>.
\<close>

definition det3 ::
  "real \<Rightarrow> real \<Rightarrow> real \<Rightarrow> real \<Rightarrow> real \<Rightarrow> real \<Rightarrow> real \<Rightarrow> real \<Rightarrow> real \<Rightarrow> real" where
  "det3 a b c d e f g h i =
     a * (e * i - f * h) - b * (d * i - f * g) + c * (d * h - e * g)"

fun det4 :: "mat4 \<Rightarrow> real" where
  "det4 (Mat4 (Vec4 a0 a1 a2 a3) (Vec4 b0 b1 b2 b3) (Vec4 c0 c1 c2 c3) (Vec4 d0 d1 d2 d3)) =
     a0 * det3 b1 b2 b3 c1 c2 c3 d1 d2 d3
   - a1 * det3 b0 b2 b3 c0 c2 c3 d0 d2 d3
   + a2 * det3 b0 b1 b3 c0 c1 c3 d0 d1 d3
   - a3 * det3 b0 b1 b2 c0 c1 c2 d0 d1 d2"

fun adjugate :: "mat4 \<Rightarrow> mat4" where
  "adjugate (Mat4 (Vec4 a0 a1 a2 a3) (Vec4 b0 b1 b2 b3) (Vec4 c0 c1 c2 c3) (Vec4 d0 d1 d2 d3)) =
     Mat4
      (Vec4 (det3 b1 b2 b3 c1 c2 c3 d1 d2 d3) (- det3 a1 a2 a3 c1 c2 c3 d1 d2 d3)
            (det3 a1 a2 a3 b1 b2 b3 d1 d2 d3) (- det3 a1 a2 a3 b1 b2 b3 c1 c2 c3))
      (Vec4 (- det3 b0 b2 b3 c0 c2 c3 d0 d2 d3) (det3 a0 a2 a3 c0 c2 c3 d0 d2 d3)
            (- det3 a0 a2 a3 b0 b2 b3 d0 d2 d3) (det3 a0 a2 a3 b0 b2 b3 c0 c2 c3))
      (Vec4 (det3 b0 b1 b3 c0 c1 c3 d0 d1 d3) (- det3 a0 a1 a3 c0 c1 c3 d0 d1 d3)
            (det3 a0 a1 a3 b0 b1 b3 d0 d1 d3) (- det3 a0 a1 a3 b0 b1 b3 c0 c1 c3))
      (Vec4 (- det3 b0 b1 b2 c0 c1 c2 d0 d1 d2) (det3 a0 a1 a2 c0 c1 c2 d0 d1 d2)
            (- det3 a0 a1 a2 b0 b1 b2 d0 d1 d2) (det3 a0 a1 a2 b0 b1 b2 c0 c1 c2))"

fun scale4 :: "real \<Rightarrow> vec4 \<Rightarrow> vec4" where
  "scale4 k (Vec4 a b c d) = Vec4 (k * a) (k * b) (k * c) (k * d)"

fun scale_mat :: "real \<Rightarrow> mat4 \<Rightarrow> mat4" where
  "scale_mat k (Mat4 r0 r1 r2 r3) = Mat4 (scale4 k r0) (scale4 k r1) (scale4 k r2) (scale4 k r3)"

subsection \<open>Errors\<close>

text \<open>
  The exceptions the methods can raise. \<open>ValueError\<close> and \<open>RuntimeWarning\<close> carry the
  message of their \<^verbatim>\<open>raise\<close> statement, \<open>KeyError\<close> the missing key. \<open>ArgumentError\<close> is
  the \<^verbatim>\<open>TypeError\<close> with which the engine's binding rejects an argument of the wrong
  Python type. \<open>VolumeError\<close> is the \<^verbatim>\<open>ValueError\<close> the engine raises from
  \<^verbatim>\<open>update()\<close> for a bounding box without volume; its message is the engine's and
  names the engine's source location.
\<close>

datatype error =
    ValueError string
  | KeyError string
  | ArgumentError
  | RuntimeWarning string
  | AssertionError
  | LinAlgError
  | VolumeError

definition linalg_inv :: "mat4 \<Rightarrow> mat4 option" where
  "linalg_inv m = (if det4 m = 0 then None else Some (scale_mat (1 / det4 m) (adjugate m)))"

subsection \<open>Meshes\<close>

text \<open>
  A \<^verbatim>\<open>trimesh.Trimesh\<close>, as far as the manager reads it: the vertex array and the
  triangular faces. In exact arithmetic \<open>apply_transform\<close> moves every vertex \<open>v\<close> to
  the first three coordinates of the matrix times \<open>(v, 1)\<close> and leaves the faces
  alone. The mesh library does so up to rounding; it leaves the mesh as it is for a
  matrix within 1e-8 of the identity, and it reverses the winding of the faces for a
  reflection.
\<close>

record trimesh =
  vertices :: "vec3 list"
  faces :: "(int \<times> int \<times> int) list"

fun transform_point :: "mat4 \<Rightarrow> vec3 \<Rightarrow> vec3" where
  "transform_point (Mat4 r0 r1 r2 r3) (Vec3 x y z) =
     Vec3 (dot4 r0 (Vec4 x y z 1)) (dot4 r1 (Vec4 x y z 1)) (dot4 r2 (Vec4 x y z 1))"

definition apply_transform :: "mat4 \<Rightarrow> trimesh \<Rightarrow> trimesh" where
  "apply_transform m msh = msh\<lparr>vertices := map (transform_point m) (vertices msh)\<rparr>"

subsection \<open>The geometry engine, by its interface\<close>

text \<open>
  A \<^verbatim>\<open>BVHModelOBB\<close> built from a mesh: its identifier (\<^verbatim>\<open>geom.id()\<close>) and the
  triangle soup it was built from. A \<^verbatim>\<open>CollisionObject\<close> places a geometry by a
  rotation and a translation; the engine computes the object's bounding box when the
  object is constructed, so the placement it was constructed with is kept beside the
  current one. Collision objects are shared between the registry and the spatial index,
  so they live in a heap and are named by their handle.
\<close>

record bvh_model =
  geom_id :: nat
  geom_vertices :: "vec3 list"
  geom_faces :: "(int \<times> int \<times> int) list"

record collision_object =
  co_geom :: bvh_model
  constructed_at :: "mat3 \<times> vec3"
  rotation :: mat3
  translation :: vec3

text \<open>\<^verbatim>\<open>o.setRotation(r)\<close> and \<^verbatim>\<open>o.setTranslation(p)\<close> on the object with handle \<open>h\<close>.\<close>

definition setRotation :: "nat \<Rightarrow> mat3 \<Rightarrow> (nat \<rightharpoonup> collision_object) \<Rightarrow> (nat \<rightharpoonup> collision_object)" where
  "setRotation h r hp = hp(h := map_option (\<lambda>ob. ob\<lparr>rotation := r\<rparr>) (hp h))"

definition setTranslation :: "nat \<Rightarrow> vec3 \<Rightarrow> (nat \<rightharpoonup> collision_object) \<Rightarrow> (nat \<rightharpoonup> collision_object)" where
  "setTranslation h p hp = hp(h := map_option (\<lambda>ob. ob\<lparr>translation := p\<rparr>) (hp h))"

text \<open>
  The operations of the libraries, as parameters: \<open>np_matmul\<close> is the product
  \<^verbatim>\<open>transform @ prev_t\<close>, \<open>np_linalg_inv\<close> is \<^verbatim>\<open>np.linalg.inv\<close> (with no result where
  it raises its \<^verbatim>\<open>LinAlgError\<close>),
  \<open>mesh_apply_transform\<close> is \<^verbatim>\<open>mesh.apply_transform\<close>, and \<open>aabb_without_volume\<close> is the
  engine's verdict, in \<^verbatim>\<open>update()\<close>, that the bounding box of a collision object has
  no volume.
\<close>

record externals =
  np_matmul :: "mat4 \<Rightarrow> mat4 \<Rightarrow> mat4"
  np_linalg_inv :: "mat4 \<Rightarrow> mat4 option"
  mesh_apply_transform :: "mat4 \<Rightarrow> trimesh \<Rightarrow> trimesh"
  aabb_without_volume :: "collision_object \<Rightarrow> bool"

text \<open>
  The instance in exact arithmetic. For an object placed without rotation the
  engine's bounding box is the box of the vertices, moved by the translation; its
  volume is the product of its three extents.
\<close>

definition extent :: "real list \<Rightarrow> real" where
  "extent xs = (case xs of [] \<Rightarrow> 0 | x # rest \<Rightarrow> fold max rest x - fold min rest x)"

fun coordinate :: "nat \<Rightarrow> vec3 \<Rightarrow> real" where
  "coordinate k (Vec3 x y z) = (if k = 0 then x else if k = 1 then y else z)"

definition box_volume :: "vec3 list \<Rightarrow> real" where
  "box_volume vs =
     extent (map (coordinate 0) vs) * extent (map (coordinate 1) vs) * extent (map (coordinate 2) vs)"

definition exact :: externals where
  "exact =
     \<lparr>np_matmul = matmul, np_linalg_inv = linalg_inv, mesh_apply_transform = apply_transform,
      aabb_without_volume = (\<lambda>ob. box_volume (geom_vertices (co_geom ob)) \<le> 0)\<rparr>"

text \<open>
  The spatial index (\<^verbatim>\<open>DynamicAABBTreeCollisionManager\<close>): the handles of the
  registered objects, in the order of their registration. The bounds it keeps are the
  engine's own, computed from the objects, and the model keeps no copy of them.
  \<^verbatim>\<open>registerObject\<close> inserts an object and \<^verbatim>\<open>update(o)\<close> refreshes one. \<^verbatim>\<open>update()\<close>
  refreshes every registered object and raises when it meets one whose bounding box
  has no volume.
\<close>

type_synonym spatial_index = "nat list"

definition registerObject :: "nat \<Rightarrow> spatial_index \<Rightarrow> spatial_index" where
  "registerObject h idx = idx @ [h]"

definition update_object :: "nat \<Rightarrow> spatial_index \<Rightarrow> spatial_index" where
  "update_object h idx = idx"

definition update_all ::
  "externals \<Rightarrow> (nat \<rightharpoonup> collision_object) \<Rightarrow> spatial_index \<Rightarrow> error + spatial_index" where
  "update_all ext hp idx =
     (if list_ex (\<lambda>h. case hp h of None \<Rightarrow> False | Some ob \<Rightarrow> aabb_without_volume ext ob) idx
      then Inl VolumeError
      else Inr idx)"

text \<open>
  \<^verbatim>\<open>unregisterObject\<close> removes a collision object from the index. The binding takes a
  \<^verbatim>\<open>CollisionObject\<close> and nothing else: called with any other Python value, such as a
  dictionary, it raises its argument error and the index stays as it was.
\<close>

record entry =
  obj :: nat
  geom :: bvh_model
  mesh :: trimesh

datatype pyvalue = PyCollisionObject nat | PyDict entry

fun unregisterObject :: "pyvalue \<Rightarrow> spatial_index \<Rightarrow> error + spatial_index" where
  "unregisterObject (PyCollisionObject h) idx = Inr (removeAll h idx)"
| "unregisterObject (PyDict d) idx = Inl ArgumentError"

text \<open>
  A raw contact, as far as \<^verbatim>\<open>get_collision_pairs\<close> reads it: the identifiers of the
  two geometries (\<^verbatim>\<open>contact.o1.id()\<close>, \<^verbatim>\<open>contact.o2.id()\<close>), the two sub-element
  indices and the two nearest points.
\<close>

record contact =
  o1 :: nat
  o2 :: nat
  b1 :: int
  b2 :: int
  nearest_point1 :: vec3
  nearest_point2 :: vec3

subsection \<open>The manager\<close>

text \<open>
  The fields of \<^verbatim>\<open>CollisionManager\<close>: \<open>manager\<close> is \<^verbatim>\<open>_manager\<close>, \<open>objs\<close> is
  \<^verbatim>\<open>_objs\<close> (a registry entry is the dictionary with the keys \<^verbatim>\<open>obj\<close>, \<^verbatim>\<open>geom\<close>
  and \<^verbatim>\<open>mesh\<close>), \<open>applied_transforms\<close> is \<^verbatim>\<open>_applied_transforms\<close> and \<open>names\<close> is
  \<^verbatim>\<open>_names\<close>. \<open>heap\<close> holds the collision objects by handle, and \<open>next_id\<close> is the
  next identifier the engine hands out: a new geometry and a new collision object each
  get one that no earlier object has. An entry holds its mesh by value: the manager is
  taken to be the only one that changes a registered mesh.
\<close>

record collision_manager =
  manager :: spatial_index
  security_margin :: real
  objs :: "string \<rightharpoonup> entry"
  applied_transforms :: "string \<rightharpoonup> mat4"
  names :: "nat \<rightharpoonup> string"
  heap :: "nat \<rightharpoonup> collision_object"
  next_id :: nat

text \<open>\<^verbatim>\<open>__init__\<close>.\<close>

definition init_manager :: "real \<Rightarrow> collision_manager" where
  "init_manager margin =
     \<lparr>manager = [], security_margin = margin, objs = Map.empty,
      applied_transforms = Map.empty, names = Map.empty, heap = Map.empty, next_id = 0\<rparr>"

text \<open>\<^verbatim>\<open>get_objects\<close> and \<^verbatim>\<open>get_object\<close> (which returns a copy, or \<^verbatim>\<open>None\<close>).\<close>

definition get_objects :: "collision_manager \<Rightarrow> (string \<rightharpoonup> trimesh)" where
  "get_objects s = (\<lambda>name. map_option mesh (objs s name))"

definition get_object :: "string \<Rightarrow> collision_manager \<Rightarrow> trimesh option" where
  "get_object name s = (case objs s name of Some e \<Rightarrow> Some (mesh e) | None \<Rightarrow> None)"

text \<open>
  \<^verbatim>\<open>add_object\<close>. The vertex and face vectors are built first; then the transform is
  defaulted and its shape checked; then the geometry and the collision object are
  created; then, for a name that is already registered, \<^verbatim>\<open>unregisterObject\<close> is called
  with the registry entry \<^verbatim>\<open>self._objs[name]\<close>, which is the dictionary and not its
  \<^verbatim>\<open>obj\<close>; then the entry and the name of the geometry are stored and the object is
  registered with the index; last comes \<^verbatim>\<open>update()\<close>, which may raise after all of
  that has been written.
\<close>

definition add_object ::
  "externals \<Rightarrow> string \<Rightarrow> trimesh \<Rightarrow> ndarray option \<Rightarrow> collision_manager
     \<Rightarrow> error option \<times> collision_manager" where
  "add_object ext name msh transform s =
     (let verts = vertices msh;
          tris = faces msh;
          transform = (case transform of None \<Rightarrow> np_eye4 | Some t \<Rightarrow> t)
      in if shape transform \<noteq> [4, 4] then (Some (ValueError ''transform must be (4,4)!''), s)
         else
           let g = \<lparr>geom_id = next_id s, geom_vertices = verts, geom_faces = tris\<rparr>;
               h = next_id s + 1;
               ob = \<lparr>co_geom = g,
                     constructed_at = (slice_rotation (as_mat4 transform),
                                       slice_translation (as_mat4 transform)),
                     rotation = slice_rotation (as_mat4 transform),
                     translation = slice_translation (as_mat4 transform)\<rparr>;
               s1 = s\<lparr>heap := (heap s)(h \<mapsto> ob), next_id := next_id s + 2\<rparr>
           in case (case objs s1 name of
                      None \<Rightarrow> Inr (manager s1)
                    | Some d \<Rightarrow> unregisterObject (PyDict d) (manager s1)) of
                Inl err \<Rightarrow> (Some err, s1)
              | Inr idx \<Rightarrow>
                  let s2 = s1\<lparr>manager := idx,
                              objs := (objs s1)(name \<mapsto> \<lparr>obj = h, geom = g, mesh = msh\<rparr>),
                              names := (names s1)(geom_id g \<mapsto> name)\<rparr>;
                      s3 = s2\<lparr>manager := registerObject h (manager s2)\<rparr>
                  in case update_all ext (heap s3) (manager s3) of
                       Inl err \<Rightarrow> (Some err, s3)
                     | Inr idx' \<Rightarrow> (None, s3\<lparr>manager := idx'\<rparr>))"

text \<open>
  \<^verbatim>\<open>set_transform\<close>. For a registered name the new absolute transform \<open>t\<close> is the
  argument, or for a relative call the product of the argument and
  \<^verbatim>\<open>self._applied_transforms[name]\<close> (a \<^verbatim>\<open>KeyError\<close> when the table has no entry). The
  collision object is moved and the index refreshed for it; then the mesh is moved back
  by the inverse of the recorded transform, if one is recorded, and forward by \<open>t\<close>;
  then \<open>t\<close> is recorded.
\<close>

definition set_transform ::
  "externals \<Rightarrow> string \<Rightarrow> mat4 \<Rightarrow> bool \<Rightarrow> collision_manager
     \<Rightarrow> error option \<times> collision_manager" where
  "set_transform ext name transform relative s =
     (case objs s name of
        None \<Rightarrow> (Some (ValueError (name @ '' not in collision manager!'')), s)
      | Some d \<Rightarrow>
          (case (if relative
                 then (case applied_transforms s name of
                         None \<Rightarrow> Inl (KeyError name)
                       | Some prev_t \<Rightarrow> Inr (np_matmul ext transform prev_t))
                 else Inr transform) of
             Inl err \<Rightarrow> (Some err, s)
           | Inr t \<Rightarrow>
               let s1 = s\<lparr>heap := setTranslation (obj d) (slice_translation t)
                                    (setRotation (obj d) (slice_rotation t) (heap s))\<rparr>;
                   s2 = s1\<lparr>manager := update_object (obj d) (manager s1)\<rparr>
               in case (case applied_transforms s2 name of
                          None \<Rightarrow> Inr (mesh d)
                        | Some applied \<Rightarrow>
                            (case np_linalg_inv ext applied of
                               None \<Rightarrow> Inl LinAlgError
                             | Some inverse_t \<Rightarrow> Inr (mesh_apply_transform ext inverse_t (mesh d)))) of
                    Inl err \<Rightarrow> (Some err, s2)
                  | Inr undone \<Rightarrow>
                      (None,
                       s2\<lparr>objs := (objs s2)(name \<mapsto> d\<lparr>mesh := mesh_apply_transform ext t undone\<rparr>),
                          applied_transforms := (applied_transforms s2)(name \<mapsto> t)\<rparr>)))"

text \<open>\<^verbatim>\<open>get_transform\<close>.\<close>

definition get_transform :: "string \<Rightarrow> collision_manager \<Rightarrow> error + mat4" where
  "get_transform name s =
     (case objs s name of
        Some d \<Rightarrow>
          (case applied_transforms s name of
             None \<Rightarrow> Inl (KeyError name)
           | Some t \<Rightarrow> Inr t)
      | None \<Rightarrow> Inl (ValueError (name @ '' not in collision manager!'')))"

text \<open>
  \<^verbatim>\<open>_extract_name\<close>: \<^verbatim>\<open>self._names.get(geom.id())\<close>, which is \<^verbatim>\<open>None\<close> for an
  identifier the table does not hold.
\<close>

definition extract_name :: "collision_manager \<Rightarrow> nat \<Rightarrow> string option" where
  "extract_name s g = names s g"

text \<open>
  \<^verbatim>\<open>get_collision_pairs\<close>: the loop over the contacts, with the dictionary
  \<^verbatim>\<open>contact_pairs\<close> as accumulator. An \<^verbatim>\<open>assert\<close> that fails raises
  \<^verbatim>\<open>AssertionError\<close> (the interpreter is taken to run with assertions on, its default).
\<close>

type_synonym pair_key = "string \<times> string \<times> int \<times> int"

fun collision_pairs_loop ::
  "collision_manager \<Rightarrow> bool \<Rightarrow> contact list \<Rightarrow> (pair_key \<rightharpoonup> vec3 \<times> vec3)
     \<Rightarrow> error + (pair_key \<rightharpoonup> vec3 \<times> vec3)" where
  "collision_pairs_loop s bidirectional [] contact_pairs = Inr contact_pairs"
| "collision_pairs_loop s bidirectional (c # cs) contact_pairs =
     (let name1 = extract_name s (o1 c);
          name2 = extract_name s (o2 c);
          point1 = nearest_point1 c;
          point2 = nearest_point2 c
      in case name1 of
           None \<Rightarrow> Inl AssertionError
         | Some n1 \<Rightarrow>
             (case name2 of
                None \<Rightarrow> Inl AssertionError
              | Some n2 \<Rightarrow>
                  if contact_pairs (n1, n2, b1 c, b2 c) \<noteq> None
                  then Inl (RuntimeWarning ''conflicting contact pairs!'')
                  else
                    let cp1 = contact_pairs((n1, n2, b1 c, b2 c) \<mapsto> (point1, point2));
                        cp2 = (if bidirectional
                               then cp1((n2, n1, b2 c, b1 c) \<mapsto> (point2, point1))
                               else cp1)
                    in collision_pairs_loop s bidirectional cs cp2))"

definition get_collision_pairs ::
  "collision_manager \<Rightarrow> contact list \<Rightarrow> bool \<Rightarrow> error + (pair_key \<rightharpoonup> vec3 \<times> vec3)" where
  "get_collision_pairs s contacts bidirectional =
     collision_pairs_loop s bidirectional contacts Map.empty"

subsection \<open>Sequences of calls\<close>

text \<open>
  A caller's calls to the two mutating methods, run one after the other. A call that
  raises leaves the state the exception left, and the caller goes on.
\<close>

datatype call =
    AddObject string trimesh "ndarray option"
  | SetTransform string mat4 bool

fun exec :: "externals \<Rightarrow> call \<Rightarrow> collision_manager \<Rightarrow> collision_manager" where
  "exec ext (AddObject name msh transform) s = snd (add_object ext name msh transform s)"
| "exec ext (SetTransform name transform relative) s =
     snd (set_transform ext name transform relative s)"

fun run :: "externals \<Rightarrow> call list \<Rightarrow> collision_manager \<Rightarrow> collision_manager" where
  "run ext [] s = s"
| "run ext (c # cs) s = run ext cs (exec ext c s)"

subsection \<open>Notions the statements use\<close>

text \<open>
  A matrix with bottom row (0, 0, 0, 1) and non-zero determinant, as every rigid
  transform is. A name whose recorded transform, if it has one, \<^verbatim>\<open>np.linalg.inv\<close>
  inverts without raising. A state with the mesh of one name blanked, to compare two
  states in everything but that mesh.
\<close>

definition invertible_homogeneous :: "mat4 \<Rightarrow> bool" where
  "invertible_homogeneous t \<longleftrightarrow> bottom_row t = Vec4 0 0 0 1 \<and> det4 t \<noteq> 0"

definition recorded_invertible :: "externals \<Rightarrow> collision_manager \<Rightarrow> string \<Rightarrow> bool" where
  "recorded_invertible ext s name =
     (case applied_transforms s name of
        None \<Rightarrow> True
      | Some p \<Rightarrow> np_linalg_inv ext p \<noteq> None)"


subsection \<open>Keys of contacts\<close>

text \<open>
  The key \<^verbatim>\<open>(name1, name2, contact.b1, contact.b2)\<close> the loop builds for a contact,
  when both of its identifiers have a name; and the key with the two sides exchanged,
  which a bidirectional call stores as well.
\<close>

definition contact_key :: "collision_manager \<Rightarrow> contact \<Rightarrow> pair_key option" where
  "contact_key s c =
     (case extract_name s (o1 c) of
        None \<Rightarrow> None
      | Some n1 \<Rightarrow>
          (case extract_name s (o2 c) of
             None \<Rightarrow> None
           | Some n2 \<Rightarrow> Some (n1, n2, b1 c, b2 c)))"

fun mirrored :: "pair_key \<Rightarrow> pair_key" where
  "mirrored (a, b, i, j) = (b, a, j, i)"

subsection \<open>Concrete scenes\<close>

text \<open>
  Inputs on which the statements below are evaluated, all with the operations of
  \<open>exact\<close>: two tetrahedra, a flat triangle (whose bounding box has no volume), a
  translation as matrix and as array, a matrix that flattens the third axis, and an
  array of the wrong shape.
\<close>

definition tetrahedron_faces :: "(int \<times> int \<times> int) list" where
  "tetrahedron_faces = [(0, 1, 2), (0, 1, 3), (0, 2, 3), (1, 2, 3)]"

definition unit_tetrahedron :: trimesh where
  "unit_tetrahedron =
     \<lparr>vertices = [Vec3 0 0 0, Vec3 1 0 0, Vec3 0 1 0, Vec3 0 0 1], faces = tetrahedron_faces\<rparr>"

definition far_tetrahedron :: trimesh where
  "far_tetrahedron =
     \<lparr>vertices = [Vec3 5 0 0, Vec3 6 0 0, Vec3 5 1 0, Vec3 5 0 1], faces = tetrahedron_faces\<rparr>"


definition translation_matrix :: "real \<Rightarrow> real \<Rightarrow> real \<Rightarrow> mat4" where
  "translation_matrix x y z = Mat4 (Vec4 1 0 0 x) (Vec4 0 1 0 y) (Vec4 0 0 1 z) (Vec4 0 0 0 1)"

definition translation_array :: "real \<Rightarrow> real \<Rightarrow> real \<Rightarrow> ndarray" where
  "translation_array x y z = NDArray [4, 4] [1, 0, 0, x,  0, 1, 0, y,  0, 0, 1, z,  0, 0, 0, 1]"



text \<open>
  A fresh manager after \<^verbatim>\<open>add_object("a", unit_tetrahedron)\<close>; that scene after
  \<^verbatim>\<open>add_object("b", far_tetrahedron)\<close>; after one absolute \<^verbatim>\<open>set_transform\<close> of
  \<^verbatim>\<open>a\<close> by a translation; and after one by the flattening matrix. A fresh manager
  after \<^verbatim>\<open>add_object("a", unit_tetrahedron, transform)\<close> with the translation by
  (1, 0, 0) as initial transform.
\<close>

definition scene_a :: collision_manager where
  "scene_a = snd (add_object exact ''a'' unit_tetrahedron None (init_manager (5 / 1000)))"

definition scene_ab :: collision_manager where
  "scene_ab = snd (add_object exact ''b'' far_tetrahedron None scene_a)"



definition scene_shifted :: collision_manager where
  "scene_shifted =
     snd (add_object exact ''a'' unit_tetrahedron (Some (translation_array 1 0 0))
            (init_manager (5 / 1000)))"

text \<open>
  A contact of the geometry of \<^verbatim>\<open>a\<close> with itself, on one face; a contact of \<^verbatim>\<open>a\<close>
  and \<^verbatim>\<open>b\<close>; a contact that names an identifier no geometry has; and the pairs a
  bidirectional call returns for the one contact of \<^verbatim>\<open>a\<close> and \<^verbatim>\<open>b\<close>.
\<close>

definition self_contact :: contact where
  "self_contact =
     \<lparr>o1 = 0, o2 = 0, b1 = 0, b2 = 0,
      nearest_point1 = Vec3 0 0 0, nearest_point2 = Vec3 1 0 0\<rparr>"

definition contact_ab :: contact where
  "contact_ab =
     \<lparr>o1 = 0, o2 = 2, b1 = 0, b2 = 0,
      nearest_point1 = Vec3 1 0 0, nearest_point2 = Vec3 5 0 0\<rparr>"

definition contact_unknown :: contact where
  "contact_unknown =
     \<lparr>o1 = 0, o2 = 7, b1 = 0, b2 = 0,
      nearest_point1 = Vec3 1 0 0, nearest_point2 = Vec3 5 0 0\<rparr>"

definition pairs_ab :: "pair_key \<rightharpoonup> vec3 \<times> vec3" where
  "pairs_ab =
     [(''a'', ''b'', 0, 0) \<mapsto> (Vec3 1 0 0, Vec3 5 0 0),
      (''b'', ''a'', 0, 0) \<mapsto> (Vec3 5 0 0, Vec3 1 0 0)]"

section \<open>Properties\<close>

subsection \<open>Matrix facts\<close>










lemma linalg_inv_pose: "invertible_homogeneous t \<Longrightarrow> \<exists>ti. linalg_inv t = Some ti"
  by (simp add: invertible_homogeneous_def linalg_inv_def)

subsection \<open>The engine's objects under repeated moves\<close>


subsection \<open>The operations of \<open>exact\<close> and the concrete scenes\<close>

lemma exact_simps:
  "np_matmul exact = matmul" "np_linalg_inv exact = linalg_inv"
  "mesh_apply_transform exact = apply_transform"
  "aabb_without_volume exact ob \<longleftrightarrow> box_volume (geom_vertices (co_geom ob)) \<le> 0"
  by (simp_all add: exact_def)

lemma box_volume_unit_tetrahedron: "box_volume (vertices unit_tetrahedron) = 1"
  by (simp add: box_volume_def extent_def unit_tetrahedron_def)

lemma box_volume_far_tetrahedron: "box_volume (vertices far_tetrahedron) = 1"
  by (simp add: box_volume_def extent_def far_tetrahedron_def)


lemma scene_a_eval:
  "scene_a =
     \<lparr>manager = [Suc 0], security_margin = 5 / 1000,
      objs = [''a'' \<mapsto>
                \<lparr>obj = Suc 0,
                 geom = \<lparr>geom_id = 0, geom_vertices = vertices unit_tetrahedron,
                          geom_faces = faces unit_tetrahedron\<rparr>,
                 mesh = unit_tetrahedron\<rparr>],
      applied_transforms = Map.empty,
      names = [0 \<mapsto> ''a''],
      heap = [Suc 0 \<mapsto>
                \<lparr>co_geom = \<lparr>geom_id = 0, geom_vertices = vertices unit_tetrahedron,
                             geom_faces = faces unit_tetrahedron\<rparr>,
                 constructed_at = (Mat3 (Vec3 1 0 0) (Vec3 0 1 0) (Vec3 0 0 1), Vec3 0 0 0),
                 rotation = Mat3 (Vec3 1 0 0) (Vec3 0 1 0) (Vec3 0 0 1),
                 translation = Vec3 0 0 0\<rparr>],
      next_id = 2\<rparr>"
  by (simp add: scene_a_def add_object_def init_manager_def np_eye4_def as_mat4_def entry_at_def
      registerObject_def update_all_def exact_simps box_volume_unit_tetrahedron Let_def)

lemma scene_a_objs:
  "objs scene_a ''a'' =
     Some \<lparr>obj = Suc 0,
           geom = \<lparr>geom_id = 0, geom_vertices = vertices unit_tetrahedron,
                    geom_faces = faces unit_tetrahedron\<rparr>,
           mesh = unit_tetrahedron\<rparr>"
  by (simp add: scene_a_eval)

lemma scene_a_objs_b: "objs scene_a ''b'' = None"
  by (simp add: scene_a_eval)

lemma scene_a_applied: "applied_transforms scene_a = Map.empty"
  by (simp add: scene_a_eval)

lemma scene_a_names: "names scene_a = [0 \<mapsto> ''a'']"
  by (simp add: scene_a_eval)

lemma scene_a_next_id: "next_id scene_a = 2"
  by (simp add: scene_a_eval)

lemma scene_a_manager: "manager scene_a = [Suc 0]"
  by (simp add: scene_a_eval)

lemma scene_ab_names: "names scene_ab = [0 \<mapsto> ''a'', 2 \<mapsto> ''b'']"
  by (simp add: scene_ab_def add_object_def np_eye4_def Let_def scene_a_eval
      registerObject_def update_all_def exact_simps split: sum.splits)

subsection \<open>Relative composition\<close>





subsection \<open>Resolving contacts\<close>

lemma loop_error_kind:
  "collision_pairs_loop s bd cs acc = Inl e \<Longrightarrow>
     e = AssertionError \<or> e = RuntimeWarning ''conflicting contact pairs!''"
proof (induction cs arbitrary: acc)
  case Nil
  then show ?case by simp
next
  case (Cons c cs)
  show ?case
  proof (cases "extract_name s (o1 c)")
    case None
    with Cons.prems show ?thesis by (simp add: Let_def)
  next
    case n1: (Some n1)
    show ?thesis
    proof (cases "extract_name s (o2 c)")
      case None
      with Cons.prems n1 show ?thesis by (simp add: Let_def)
    next
      case n2: (Some n2)
      show ?thesis
      proof (cases "acc (n1, n2, b1 c, b2 c)")
        case (Some pq)
        with Cons.prems n1 n2 show ?thesis by (simp add: Let_def)
      next
        case None
        with Cons.prems n1 n2 obtain acc' where "collision_pairs_loop s bd cs acc' = Inl e"
          by (simp add: Let_def)
        then show ?thesis by (rule Cons.IH)
      qed
    qed
  qed
qed

lemma loop_step:
  assumes "collision_pairs_loop s bd (c # cs) acc = Inr r"
  obtains n1 n2 where
    "extract_name s (o1 c) = Some n1" and "extract_name s (o2 c) = Some n2"
    and "acc (n1, n2, b1 c, b2 c) = None"
    and "collision_pairs_loop s bd cs
           (if bd
            then acc((n1, n2, b1 c, b2 c) \<mapsto> (nearest_point1 c, nearest_point2 c),
                     (n2, n1, b2 c, b1 c) \<mapsto> (nearest_point2 c, nearest_point1 c))
            else acc((n1, n2, b1 c, b2 c) \<mapsto> (nearest_point1 c, nearest_point2 c))) = Inr r"
proof (cases "extract_name s (o1 c)")
  case None
  with assms show ?thesis by (simp add: Let_def)
next
  case n1: (Some n1)
  show ?thesis
  proof (cases "extract_name s (o2 c)")
    case None
    with assms n1 show ?thesis by (simp add: Let_def)
  next
    case n2: (Some n2)
    show ?thesis
    proof (cases "acc (n1, n2, b1 c, b2 c)")
      case None
      with assms n1 n2 that [OF n1 n2 None] show ?thesis
        by (cases bd) (simp_all add: Let_def)
    next
      case (Some pq)
      with assms n1 n2 show ?thesis by (simp add: Let_def)
    qed
  qed
qed

lemma loop_step_ext:
  assumes "collision_pairs_loop s bd (c # cs) acc = Inr r"
  obtains k acc' where
    "contact_key s c = Some k" and "acc k = None" and "acc' k \<noteq> None"
    and "\<And>k'. acc' k' = None \<Longrightarrow> acc k' = None"
    and "collision_pairs_loop s bd cs acc' = Inr r"
  using assms
proof (rule loop_step)
  fix n1 n2
  assume n1: "extract_name s (o1 c) = Some n1" and n2: "extract_name s (o2 c) = Some n2"
    and fresh: "acc (n1, n2, b1 c, b2 c) = None"
    and rest: "collision_pairs_loop s bd cs
           (if bd
            then acc((n1, n2, b1 c, b2 c) \<mapsto> (nearest_point1 c, nearest_point2 c),
                     (n2, n1, b2 c, b1 c) \<mapsto> (nearest_point2 c, nearest_point1 c))
            else acc((n1, n2, b1 c, b2 c) \<mapsto> (nearest_point1 c, nearest_point2 c))) = Inr r"
  have key: "contact_key s c = Some (n1, n2, b1 c, b2 c)"
    by (simp add: contact_key_def n1 n2)
  show ?thesis
  proof (cases bd)
    case True
    show ?thesis
    proof (rule that [OF key fresh])
      show "collision_pairs_loop s bd cs
              (acc((n1, n2, b1 c, b2 c) \<mapsto> (nearest_point1 c, nearest_point2 c),
                   (n2, n1, b2 c, b1 c) \<mapsto> (nearest_point2 c, nearest_point1 c))) = Inr r"
        using rest True by simp
    qed (simp_all split: if_splits)
  next
    case False
    show ?thesis
    proof (rule that [OF key fresh])
      show "collision_pairs_loop s bd cs
              (acc((n1, n2, b1 c, b2 c) \<mapsto> (nearest_point1 c, nearest_point2 c))) = Inr r"
        using rest False by simp
    qed (simp_all split: if_splits)
  qed
qed

lemma loop_keeps_keys:
  "collision_pairs_loop s bd cs acc = Inr r \<Longrightarrow> acc k \<noteq> None \<Longrightarrow> r k \<noteq> None"
proof (induction cs arbitrary: acc)
  case Nil
  then show ?case by simp
next
  case (Cons c cs)
  from Cons.prems(1) obtain acc' where
    ext: "\<And>k'. acc' k' = None \<Longrightarrow> acc k' = None"
    and rest: "collision_pairs_loop s bd cs acc' = Inr r"
    by (rule loop_step_ext) blast
  from ext [of k] Cons.prems(2) have "acc' k \<noteq> None" by blast
  from Cons.IH [OF rest this] show ?case .
qed

lemma loop_key_fresh:
  "collision_pairs_loop s bd cs acc = Inr r \<Longrightarrow> c \<in> set cs \<Longrightarrow>
     \<exists>k. contact_key s c = Some k \<and> acc k = None"
proof (induction cs arbitrary: acc)
  case Nil
  then show ?case by simp
next
  case (Cons c' cs)
  from Cons.prems(1) obtain k' acc' where
    key: "contact_key s c' = Some k'" and fresh: "acc k' = None"
    and ext: "\<And>k. acc' k = None \<Longrightarrow> acc k = None"
    and rest: "collision_pairs_loop s bd cs acc' = Inr r"
    by (rule loop_step_ext) blast
  show ?case
  proof (cases "c = c'")
    case True
    with key fresh show ?thesis by simp
  next
    case False
    with Cons.prems(2) have "c \<in> set cs" by simp
    from Cons.IH [OF rest this] ext show ?thesis by blast
  qed
qed

lemma loop_first_key_stored:
  assumes "collision_pairs_loop s bd (c # cs) acc = Inr r" and "contact_key s c = Some k"
  shows "\<exists>acc'. collision_pairs_loop s bd cs acc' = Inr r \<and> acc' k \<noteq> None"
  using assms(1)
proof (rule loop_step_ext)
  fix k' acc'
  assume key: "contact_key s c = Some k'" and stored: "acc' k' \<noteq> None"
    and rest: "collision_pairs_loop s bd cs acc' = Inr r"
  from key assms(2) have "k' = k" by simp
  with stored have "acc' k \<noteq> None" by simp
  with rest show ?thesis by (intro exI conjI)
qed

lemma loop_no_repeated_key:
  "collision_pairs_loop s bd cs acc = Inr r \<Longrightarrow> i < j \<Longrightarrow> j < length cs \<Longrightarrow>
     contact_key s (cs ! i) = Some k \<Longrightarrow> contact_key s (cs ! j) \<noteq> Some k"
proof (induction cs arbitrary: acc i j)
  case Nil
  then show ?case by simp
next
  case (Cons c cs)
  from Cons.prems(2) obtain j' where j: "j = Suc j'" by (cases j) auto
  with Cons.prems(3) have j': "j' < length cs" by simp
  show ?case
  proof (cases i)
    case 0
    with Cons.prems(4) have "contact_key s c = Some k" by simp
    from loop_first_key_stored [OF Cons.prems(1) this]
    obtain acc' where rest: "collision_pairs_loop s bd cs acc' = Inr r" and stored: "acc' k \<noteq> None"
      by blast
    from j' have "cs ! j' \<in> set cs" by simp
    from loop_key_fresh [OF rest this] stored show ?thesis
      by (auto simp: j)
  next
    case (Suc i')
    from Cons.prems(1) obtain acc' where rest: "collision_pairs_loop s bd cs acc' = Inr r"
      by (rule loop_step_ext) blast
    from Cons.prems(2) have "i' < j'" by (simp add: Suc j)
    from Cons.IH [OF rest this j'] Cons.prems(4) show ?thesis
      by (simp add: Suc j)
  qed
qed

lemma loop_resolved_no_assertion:
  "\<forall>c\<in>set cs. contact_key s c \<noteq> None \<Longrightarrow> collision_pairs_loop s bd cs acc \<noteq> Inl AssertionError"
proof (induction cs arbitrary: acc)
  case Nil
  then show ?case by simp
next
  case (Cons c cs)
  from Cons.prems have key: "contact_key s c \<noteq> None" and rest: "\<forall>c\<in>set cs. contact_key s c \<noteq> None"
    by simp_all
  from key obtain n1 n2 where n1: "extract_name s (o1 c) = Some n1" and n2: "extract_name s (o2 c) = Some n2"
    by (auto simp: contact_key_def split: option.splits)
  show ?case
  proof (cases "acc (n1, n2, b1 c, b2 c)")
    case (Some pq)
    then show ?thesis by (simp add: Let_def n1 n2)
  next
    case None
    then show ?thesis
      using Cons.IH [OF rest] by (simp add: Let_def n1 n2)
  qed
qed

text \<open>
  Claim C4. If the contact list holds a contact one of whose two geometry identifiers
  has no entry in \<^verbatim>\<open>_names\<close>, then \<^verbatim>\<open>get_collision_pairs\<close> raises: it never returns a
  mapping, with or without that contact. The exception is the \<^verbatim>\<open>AssertionError\<close> of
  the failed \<^verbatim>\<open>assert\<close>, unless a repeated key earlier in the list has already raised
  the \<^verbatim>\<open>RuntimeWarning\<close>; both are the consistency failure of the specification.
\<close>

theorem unresolved_identifier_raises:
  assumes "c \<in> set contacts"
    and "extract_name s (o1 c) = None \<or> extract_name s (o2 c) = None"
  shows "get_collision_pairs s contacts bidirectional = Inl AssertionError \<or>
         get_collision_pairs s contacts bidirectional = Inl (RuntimeWarning ''conflicting contact pairs!'')"
proof (cases "get_collision_pairs s contacts bidirectional")
  case (Inl e)
  with loop_error_kind [of s bidirectional contacts Map.empty e] show ?thesis
    by (auto simp: get_collision_pairs_def)
next
  case (Inr r)
  then have "collision_pairs_loop s bidirectional contacts Map.empty = Inr r"
    by (simp add: get_collision_pairs_def)
  from loop_key_fresh [OF this assms(1)] assms(2) show ?thesis
    by (auto simp: contact_key_def split: option.splits)
qed

text \<open>
  Claim C9. If two contacts of the list, at positions \<open>i < j\<close>, produce the same key
  (name, name, sub-element, sub-element), then \<^verbatim>\<open>get_collision_pairs\<close> raises and
  returns no mapping, for either value of \<^verbatim>\<open>bidirectional\<close>; when every contact of the
  list resolves to names, the exception is the \<^verbatim>\<open>RuntimeWarning\<close> for conflicting
  pairs.
\<close>

theorem repeated_key_raises:
  assumes "i < j" and "j < length contacts"
    and "contact_key s (contacts ! i) = Some k"
    and "contact_key s (contacts ! j) = Some k"
  shows "(get_collision_pairs s contacts bidirectional = Inl AssertionError \<or>
          get_collision_pairs s contacts bidirectional = Inl (RuntimeWarning ''conflicting contact pairs!'')) \<and>
         ((\<forall>c\<in>set contacts. contact_key s c \<noteq> None) \<longrightarrow>
          get_collision_pairs s contacts bidirectional = Inl (RuntimeWarning ''conflicting contact pairs!''))"
proof (cases "get_collision_pairs s contacts bidirectional")
  case (Inl e)
  with loop_error_kind [of s bidirectional contacts Map.empty e]
    loop_resolved_no_assertion [of contacts s bidirectional Map.empty]
  show ?thesis
    by (auto simp: get_collision_pairs_def)
next
  case (Inr r)
  then have "collision_pairs_loop s bidirectional contacts Map.empty = Inr r"
    by (simp add: get_collision_pairs_def)
  from loop_no_repeated_key [OF this assms(1,2,3)] assms(4) show ?thesis
    by simp
qed

subsection \<open>Mirrored keys\<close>

lemma mirrored_mirrored: "mirrored (mirrored k) = k"
  by (cases k) simp

lemma mirrored_eq_iff: "mirrored k = k' \<longleftrightarrow> k = mirrored k'"
  by (cases k; cases k') auto

lemma mirror_step:
  assumes inv: "\<And>k p q. acc k = Some (p, q) \<Longrightarrow>
                  acc (mirrored k) \<noteq> None \<and> (mirrored k \<noteq> k \<longrightarrow> acc (mirrored k) = Some (q, p))"
    and fresh: "acc k0 = None"
    and new: "(acc(k0 \<mapsto> (x, y), mirrored k0 \<mapsto> (y, x))) k = Some (p, q)"
  shows "(acc(k0 \<mapsto> (x, y), mirrored k0 \<mapsto> (y, x))) (mirrored k) \<noteq> None \<and>
         (mirrored k \<noteq> k \<longrightarrow> (acc(k0 \<mapsto> (x, y), mirrored k0 \<mapsto> (y, x))) (mirrored k) = Some (q, p))"
proof -
  have fresh': "acc (mirrored k0) = None"
  proof (rule ccontr)
    assume "acc (mirrored k0) \<noteq> None"
    then obtain p' q' where "acc (mirrored k0) = Some (p', q')" by auto
    from inv [OF this] fresh show False by (simp add: mirrored_mirrored)
  qed
  consider (m) "k = mirrored k0" | (k) "k \<noteq> mirrored k0" "k = k0" | (other) "k \<noteq> mirrored k0" "k \<noteq> k0"
    by blast
  then show ?thesis
  proof cases
    case m
    with new have pq: "p = y" "q = x" by simp_all
    show ?thesis
      by (simp add: m mirrored_mirrored pq)
  next
    case k
    with new have pq: "p = x" "q = y" by simp_all
    show ?thesis
      by (simp add: k(2) pq)
  next
    case other
    with new have old: "acc k = Some (p, q)" by simp
    from other have ne1: "mirrored k \<noteq> k0" and ne2: "mirrored k \<noteq> mirrored k0"
      by (simp_all add: mirrored_eq_iff mirrored_mirrored)
    from inv [OF old] show ?thesis
      by (simp add: ne1 ne2)
  qed
qed

lemma loop_mirror_closed:
  assumes "collision_pairs_loop s True cs acc = Inr r"
    and "\<And>k p q. acc k = Some (p, q) \<Longrightarrow>
           acc (mirrored k) \<noteq> None \<and> (mirrored k \<noteq> k \<longrightarrow> acc (mirrored k) = Some (q, p))"
    and "r k = Some (p, q)"
  shows "r (mirrored k) \<noteq> None \<and> (mirrored k \<noteq> k \<longrightarrow> r (mirrored k) = Some (q, p))"
  using assms
proof (induction cs arbitrary: acc)
  case Nil
  then show ?case by simp
next
  case (Cons c cs)
  from Cons.prems(1) show ?case
  proof (rule loop_step)
    fix n1 n2
    assume fresh: "acc (n1, n2, b1 c, b2 c) = None"
      and rest: "collision_pairs_loop s True cs
           (if True
            then acc((n1, n2, b1 c, b2 c) \<mapsto> (nearest_point1 c, nearest_point2 c),
                     (n2, n1, b2 c, b1 c) \<mapsto> (nearest_point2 c, nearest_point1 c))
            else acc((n1, n2, b1 c, b2 c) \<mapsto> (nearest_point1 c, nearest_point2 c))) = Inr r"
    let ?k0 = "(n1, n2, b1 c, b2 c)"
    let ?acc = "acc(?k0 \<mapsto> (nearest_point1 c, nearest_point2 c),
                     mirrored ?k0 \<mapsto> (nearest_point2 c, nearest_point1 c))"
    from rest have rest': "collision_pairs_loop s True cs ?acc = Inr r" by simp
    show ?thesis
    proof (rule Cons.IH [OF rest' _ Cons.prems(3)])
      fix k' p' q'
      assume "?acc k' = Some (p', q')"
      from mirror_step [of acc ?k0, OF Cons.prems(2) fresh this]
      show "?acc (mirrored k') \<noteq> None \<and> (mirrored k' \<noteq> k' \<longrightarrow> ?acc (mirrored k') = Some (q', p'))" .
    qed
  qed
qed

text \<open>
  Claim C10, as amended. When \<^verbatim>\<open>get_collision_pairs\<close> is called with
  \<^verbatim>\<open>bidirectional=True\<close> and returns a mapping, then for every key \<open>(a, b, i, j)\<close> of
  the mapping the mirrored key \<open>(b, a, j, i)\<close> is present as well, and it maps to the
  exchanged pair of points whenever the key is not its own mirror image, that is
  whenever \<open>(a, i) \<noteq> (b, j)\<close>.
\<close>

theorem bidirectional_mirror:
  assumes "get_collision_pairs s contacts True = Inr m"
    and "m (a, b, i, j) = Some (p, q)"
  shows "m (b, a, j, i) \<noteq> None \<and> ((a, i) \<noteq> (b, j) \<longrightarrow> m (b, a, j, i) = Some (q, p))"
proof -
  from assms(1) have loop: "collision_pairs_loop s True contacts Map.empty = Inr m"
    by (simp add: get_collision_pairs_def)
  have "m (mirrored (a, b, i, j)) \<noteq> None \<and>
        (mirrored (a, b, i, j) \<noteq> (a, b, i, j) \<longrightarrow> m (mirrored (a, b, i, j)) = Some (q, p))"
    by (rule loop_mirror_closed [OF loop _ assms(2)]) simp
  then show ?thesis by auto
qed

subsection \<open>The statements on contacts, evaluated\<close>

text \<open>
  An unresolved identifier at the scene of \<^verbatim>\<open>a\<close> and \<^verbatim>\<open>b\<close>: the second contact
  names the identifier 7, which the registry does not hold.
\<close>

theorem unresolved_identifier_raises_witness:
  "contact_unknown \<in> set [contact_ab, contact_unknown] \<and>
   (extract_name scene_ab (o1 contact_unknown) = None \<or>
    extract_name scene_ab (o2 contact_unknown) = None) \<and>
   (get_collision_pairs scene_ab [contact_ab, contact_unknown] False = Inl AssertionError \<or>
    get_collision_pairs scene_ab [contact_ab, contact_unknown] False
      = Inl (RuntimeWarning ''conflicting contact pairs!'')) \<and>
   get_collision_pairs scene_ab [contact_ab, contact_unknown] False = Inl AssertionError"
proof -
  have mem: "contact_unknown \<in> set [contact_ab, contact_unknown]" by simp
  have unres: "extract_name scene_ab (o1 contact_unknown) = None \<or>
               extract_name scene_ab (o2 contact_unknown) = None"
    by (simp add: extract_name_def scene_ab_names contact_unknown_def)
  have val: "get_collision_pairs scene_ab [contact_ab, contact_unknown] False = Inl AssertionError"
    by (simp add: get_collision_pairs_def extract_name_def scene_ab_names contact_unknown_def
        contact_ab_def Let_def)
  from unresolved_identifier_raises [OF mem unres, of False] mem unres val
  show ?thesis by blast
qed

text \<open>A repeated key at the same scene: the one contact of \<^verbatim>\<open>a\<close> and \<^verbatim>\<open>b\<close>, twice.\<close>

theorem repeated_key_raises_witness:
  "(0::nat) < 1 \<and> 1 < length [contact_ab, contact_ab] \<and>
   contact_key scene_ab ([contact_ab, contact_ab] ! 0) = Some (''a'', ''b'', 0, 0) \<and>
   contact_key scene_ab ([contact_ab, contact_ab] ! 1) = Some (''a'', ''b'', 0, 0) \<and>
   get_collision_pairs scene_ab [contact_ab, contact_ab] False
     = Inl (RuntimeWarning ''conflicting contact pairs!'') \<and>
   get_collision_pairs scene_ab [contact_ab, contact_ab] True
     = Inl (RuntimeWarning ''conflicting contact pairs!'')"
proof -
  have key: "contact_key scene_ab contact_ab = Some (''a'', ''b'', 0, 0)"
    by (simp add: contact_key_def extract_name_def scene_ab_names contact_ab_def)
  have k0: "contact_key scene_ab ([contact_ab, contact_ab] ! 0) = Some (''a'', ''b'', 0, 0)"
    and k1: "contact_key scene_ab ([contact_ab, contact_ab] ! 1) = Some (''a'', ''b'', 0, 0)"
    by (simp_all add: key)
  have lt: "(0::nat) < 1" and len: "1 < length [contact_ab, contact_ab]" by simp_all
  have all: "\<forall>c\<in>set [contact_ab, contact_ab]. contact_key scene_ab c \<noteq> None"
    by (simp add: key)
  from repeated_key_raises [OF lt len k0 k1, of False] repeated_key_raises [OF lt len k0 k1, of True]
    all lt len k0 k1
  show ?thesis by blast
qed

text \<open>
  Claim C10 as first stated asks that the mirrored key map to the exchanged pair for
  every key. A contact of a geometry with itself on one face has a key that is its own
  mirror image: the second store overwrites the first, the key maps to
  \<open>(point2, point1)\<close>, and the mirrored key, being the same key, does not map to the
  exchange of that.
\<close>

theorem bidirectional_mirror_self_contact:
  "\<not> isl (get_collision_pairs scene_a [self_contact] True) \<and>
   projr (get_collision_pairs scene_a [self_contact] True) (''a'', ''a'', 0, 0)
     = Some (Vec3 1 0 0, Vec3 0 0 0) \<and>
   mirrored (''a'', ''a'', 0, 0) = (''a'', ''a'', 0, 0) \<and>
   projr (get_collision_pairs scene_a [self_contact] True) (mirrored (''a'', ''a'', 0, 0))
     \<noteq> Some (Vec3 0 0 0, Vec3 1 0 0)"
  by (simp add: get_collision_pairs_def extract_name_def scene_a_names self_contact_def Let_def)

text \<open>The mirrored entry for the contact of \<^verbatim>\<open>a\<close> and \<^verbatim>\<open>b\<close>.\<close>

theorem bidirectional_mirror_witness:
  "get_collision_pairs scene_ab [contact_ab] True = Inr pairs_ab \<and>
   pairs_ab (''a'', ''b'', 0, 0) = Some (Vec3 1 0 0, Vec3 5 0 0) \<and>
   (''a'', 0::int) \<noteq> (''b'', 0) \<and>
   pairs_ab (''b'', ''a'', 0, 0) = Some (Vec3 5 0 0, Vec3 1 0 0)"
proof -
  have run: "get_collision_pairs scene_ab [contact_ab] True = Inr pairs_ab"
    by (simp add: get_collision_pairs_def extract_name_def scene_ab_names contact_ab_def Let_def
        pairs_ab_def)
  have at: "pairs_ab (''a'', ''b'', 0, 0) = Some (Vec3 1 0 0, Vec3 5 0 0)"
    by (simp add: pairs_ab_def)
  have ne: "(''a'', 0::int) \<noteq> (''b'', 0)" by simp
  from bidirectional_mirror [OF run at] ne
  have mir: "pairs_ab (''b'', ''a'', 0, 0) = Some (Vec3 5 0 0, Vec3 1 0 0)" by blast
  show ?thesis
    by (rule conjI [OF run conjI [OF at conjI [OF ne mir]]])
qed


subsection \<open>Registration\<close>

lemma add_object_applied:
  "applied_transforms (snd (add_object ext name msh tr s)) = applied_transforms s"
  by (cases "objs s name")
     (simp_all add: add_object_def Let_def split: option.splits sum.splits)


lemma add_object_good_shape_outcome:
  assumes "tr = None \<or> (\<exists>t. tr = Some t \<and> shape t = [4, 4])"
  shows "(objs s name \<noteq> None \<and> fst (add_object ext name msh tr s) = Some ArgumentError) \<or>
         (objs s name = None \<and>
            (fst (add_object ext name msh tr s) = None \<or>
             fst (add_object ext name msh tr s) = Some VolumeError))"
  using assms
  by (cases "objs s name")
     (auto simp: add_object_def Let_def np_eye4_def update_all_def)




subsection \<open>Transforms of registered and unregistered names\<close>

lemma set_transform_not_found:
  "objs s name = None \<Longrightarrow>
     set_transform ext name t rel s
       = (Some (ValueError (name @ '' not in collision manager!'')), s)"
  by (simp add: set_transform_def)

lemma set_transform_found_error:
  assumes "objs s name = Some d"
  shows "fst (set_transform ext name t rel s) \<noteq> Some (ValueError msg)"
proof (cases "applied_transforms s name")
  case None
  with assms show ?thesis
    by (cases rel) (simp_all add: set_transform_def Let_def)
next
  case (Some p)
  with assms show ?thesis
    by (cases rel; cases "np_linalg_inv ext p")
       (simp_all add: set_transform_def Let_def update_object_def)
qed

lemma get_transform_not_found_iff:
  "get_transform name s = Inl (ValueError (name @ '' not in collision manager!''))
     \<longleftrightarrow> objs s name = None"
  by (simp add: get_transform_def split: option.splits)

lemma set_transform_applied_other:
  "n \<noteq> name \<Longrightarrow>
     applied_transforms (snd (set_transform ext name t rel s)) n = applied_transforms s n"
  by (simp add: set_transform_def Let_def split: option.splits sum.splits)

lemma set_transform_relative_unset:
  assumes "objs s name = Some d" and "applied_transforms s name = None"
  shows "set_transform ext name t True s = (Some (KeyError name), s)"
  using assms by (simp add: set_transform_def)

lemma get_transform_unset:
  assumes "objs s name = Some d" and "applied_transforms s name = None"
  shows "get_transform name s = Inl (KeyError name)"
  using assms by (simp add: get_transform_def)

lemma exec_applied:
  assumes "applied_transforms s n = None" and "\<forall>t r. c \<noteq> SetTransform n t r"
  shows "applied_transforms (exec ext c s) n = None"
proof (cases c)
  case (AddObject name msh tr)
  with assms(1) show ?thesis by (simp add: add_object_applied)
next
  case (SetTransform name t r)
  with assms(2) have "n \<noteq> name" by auto
  with assms(1) SetTransform show ?thesis by (simp add: set_transform_applied_other)
qed

lemma run_applied:
  "applied_transforms s n = None \<Longrightarrow> \<forall>t r. SetTransform n t r \<notin> set cs \<Longrightarrow>
     applied_transforms (run ext cs s) n = None"
proof (induction cs arbitrary: s)
  case Nil
  then show ?case by simp
next
  case (Cons c cs)
  from Cons.prems(2) have here: "\<forall>t r. c \<noteq> SetTransform n t r"
    and later: "\<forall>t r. SetTransform n t r \<notin> set cs"
    by auto
  from exec_applied [OF Cons.prems(1) here]
  have "applied_transforms (exec ext c s) n = None" .
  from Cons.IH [OF this later] show ?case by simp
qed

text \<open>
  Claim C6. Start from a fresh manager and run any calls of \<^verbatim>\<open>add_object\<close> and
  \<^verbatim>\<open>set_transform\<close>, none of them a \<^verbatim>\<open>set_transform\<close> of \<open>name\<close>. If \<open>name\<close> is then
  registered, \<^verbatim>\<open>get_transform(name)\<close> raises \<^verbatim>\<open>KeyError\<close>, and so does a relative
  \<^verbatim>\<open>set_transform\<close> of \<open>name\<close>, leaving the state as it was. \<^verbatim>\<open>add_object\<close> never
  changes the table of applied transforms, whatever its arguments and outcome.
\<close>

theorem registered_without_transform:
  assumes "objs (run ext cs (init_manager margin)) name \<noteq> None"
    and "\<forall>t r. SetTransform name t r \<notin> set cs"
  shows "get_transform name (run ext cs (init_manager margin)) = Inl (KeyError name) \<and>
         set_transform ext name dlt True (run ext cs (init_manager margin))
           = (Some (KeyError name), run ext cs (init_manager margin)) \<and>
         applied_transforms (snd (add_object ext n msh tr s)) = applied_transforms s"
proof -
  have "applied_transforms (init_manager margin) name = None"
    by (simp add: init_manager_def)
  from run_applied [OF this assms(2)]
  have unset: "applied_transforms (run ext cs (init_manager margin)) name = None" .
  from assms(1) obtain d where reg: "objs (run ext cs (init_manager margin)) name = Some d"
    by auto
  show ?thesis
    by (simp add: get_transform_unset [OF reg unset] set_transform_relative_unset [OF reg unset]
        add_object_applied)
qed

lemma scene_shifted_run:
  "run exact [AddObject ''a'' unit_tetrahedron (Some (translation_array 1 0 0))]
     (init_manager (5 / 1000)) = scene_shifted"
  by (simp add: scene_shifted_def)

lemma scene_shifted_eval:
  "scene_shifted =
     \<lparr>manager = [Suc 0], security_margin = 5 / 1000,
      objs = [''a'' \<mapsto>
                \<lparr>obj = Suc 0,
                 geom = \<lparr>geom_id = 0, geom_vertices = vertices unit_tetrahedron,
                          geom_faces = faces unit_tetrahedron\<rparr>,
                 mesh = unit_tetrahedron\<rparr>],
      applied_transforms = Map.empty,
      names = [0 \<mapsto> ''a''],
      heap = [Suc 0 \<mapsto>
                \<lparr>co_geom = \<lparr>geom_id = 0, geom_vertices = vertices unit_tetrahedron,
                             geom_faces = faces unit_tetrahedron\<rparr>,
                 constructed_at = (Mat3 (Vec3 1 0 0) (Vec3 0 1 0) (Vec3 0 0 1), Vec3 1 0 0),
                 rotation = Mat3 (Vec3 1 0 0) (Vec3 0 1 0) (Vec3 0 0 1),
                 translation = Vec3 1 0 0\<rparr>],
      next_id = 2\<rparr>"
  by (simp add: scene_shifted_def add_object_def init_manager_def translation_array_def
      as_mat4_def entry_at_def registerObject_def update_all_def exact_simps
      box_volume_unit_tetrahedron Let_def)

text \<open>
  The missing entry after the single call
  \<^verbatim>\<open>add_object("a", unit_tetrahedron, transform)\<close> with the translation by (1, 0, 0).
\<close>

theorem registered_without_transform_witness:
  "objs (run exact [AddObject ''a'' unit_tetrahedron (Some (translation_array 1 0 0))]
           (init_manager (5 / 1000))) ''a'' \<noteq> None \<and>
   (\<forall>t r. SetTransform ''a'' t r
            \<notin> set [AddObject ''a'' unit_tetrahedron (Some (translation_array 1 0 0))]) \<and>
   get_transform ''a'' scene_shifted = Inl (KeyError ''a'') \<and>
   set_transform exact ''a'' (translation_matrix 0 0 1) True scene_shifted
     = (Some (KeyError ''a''), scene_shifted)"
proof -
  have reg: "objs (run exact [AddObject ''a'' unit_tetrahedron (Some (translation_array 1 0 0))]
                    (init_manager (5 / 1000))) ''a'' \<noteq> None"
    by (simp only: scene_shifted_run) (simp add: scene_shifted_eval)
  have none: "\<forall>t r. SetTransform ''a'' t r
                \<notin> set [AddObject ''a'' unit_tetrahedron (Some (translation_array 1 0 0))]"
    by simp
  from registered_without_transform [OF reg none, of "translation_matrix 0 0 1"] reg none
  show ?thesis
    by (simp only: scene_shifted_run) blast
qed

subsection \<open>Adding a registered name again\<close>

lemma add_object_registered_frame:
  assumes "objs s name = Some d"
  shows "objs (snd (add_object ext name msh tr s)) = objs s \<and>
         names (snd (add_object ext name msh tr s)) = names s \<and>
         manager (snd (add_object ext name msh tr s)) = manager s \<and>
         fst (add_object ext name msh tr s) \<noteq> None"
  using assms by (cases tr) (simp_all add: add_object_def Let_def np_eye4_def)








subsection \<open>Where the code departs from the specification\<close>

text \<open>
  Claim C1 asks that the pose of the collision object, the applied transform and the
  vertices of the mesh agree at every point after registration. After
  \<^verbatim>\<open>add_object("a", unit_tetrahedron, transform)\<close> with the translation by (1, 0, 0)
  the call has returned normally, the collision object is translated by (1, 0, 0), the
  mesh is still \<open>unit_tetrahedron\<close>, which differs from its translate, no applied
  transform is recorded, and \<^verbatim>\<open>get_transform("a")\<close> raises \<^verbatim>\<open>KeyError\<close>.
\<close>

theorem initial_transform_not_applied:
  "fst (add_object exact ''a'' unit_tetrahedron (Some (translation_array 1 0 0))
          (init_manager (5 / 1000))) = None \<and>
   map_option translation (heap scene_shifted 1) = Some (Vec3 1 0 0) \<and>
   map_option obj (objs scene_shifted ''a'') = Some 1 \<and>
   get_object ''a'' scene_shifted = Some unit_tetrahedron \<and>
   apply_transform (translation_matrix 1 0 0) unit_tetrahedron \<noteq> unit_tetrahedron \<and>
   applied_transforms scene_shifted ''a'' = None \<and>
   get_transform ''a'' scene_shifted = Inl (KeyError ''a'')"
proof (intro conjI)
  show "fst (add_object exact ''a'' unit_tetrahedron (Some (translation_array 1 0 0))
          (init_manager (5 / 1000))) = None"
    by (simp add: add_object_def init_manager_def translation_array_def Let_def
        registerObject_def update_all_def exact_simps box_volume_unit_tetrahedron)
  show "map_option translation (heap scene_shifted 1) = Some (Vec3 1 0 0)"
    by (simp add: scene_shifted_eval)
  show "map_option obj (objs scene_shifted ''a'') = Some 1"
    by (simp add: scene_shifted_eval)
  show "get_object ''a'' scene_shifted = Some unit_tetrahedron"
    by (simp add: get_object_def scene_shifted_eval)
  show "apply_transform (translation_matrix 1 0 0) unit_tetrahedron \<noteq> unit_tetrahedron"
    by (simp add: apply_transform_def translation_matrix_def unit_tetrahedron_def)
  show "applied_transforms scene_shifted ''a'' = None"
    by (simp add: scene_shifted_eval)
  show "get_transform ''a'' scene_shifted = Inl (KeyError ''a'')"
    by (simp add: get_transform_def scene_shifted_eval)
qed

text \<open>
  Claim C3 asks that a second \<^verbatim>\<open>add_object\<close> under the same name replace the first
  object. The second call, \<^verbatim>\<open>add_object("a", far_tetrahedron)\<close> after
  \<^verbatim>\<open>add_object("a", unit_tetrahedron)\<close>, passes the registry dictionary to
  \<^verbatim>\<open>unregisterObject\<close> and raises there: the name still maps to the first object and
  its mesh, the first collision object (handle 1) is still in the index, and the new
  collision object (handle 3) was created but never registered.
\<close>

theorem readd_raises_and_keeps_old_object:
  "fst (add_object exact ''a'' far_tetrahedron None scene_a) = Some ArgumentError \<and>
   get_object ''a'' (snd (add_object exact ''a'' far_tetrahedron None scene_a))
     = Some unit_tetrahedron \<and>
   unit_tetrahedron \<noteq> far_tetrahedron \<and>
   map_option obj (objs (snd (add_object exact ''a'' far_tetrahedron None scene_a)) ''a'')
     = Some 1 \<and>
   1 \<in> set (manager (snd (add_object exact ''a'' far_tetrahedron None scene_a))) \<and>
   heap (snd (add_object exact ''a'' far_tetrahedron None scene_a)) 3 \<noteq> None \<and>
   3 \<notin> set (manager (snd (add_object exact ''a'' far_tetrahedron None scene_a)))"
proof -
  note frame = add_object_registered_frame [OF scene_a_objs, of exact far_tetrahedron None]
  have out: "fst (add_object exact ''a'' far_tetrahedron None scene_a) = Some ArgumentError"
    using add_object_good_shape_outcome [of None scene_a "''a''" exact far_tetrahedron]
    by (simp add: scene_a_objs)
  have new: "heap (snd (add_object exact ''a'' far_tetrahedron None scene_a)) 3 \<noteq> None"
    by (simp add: add_object_def Let_def np_eye4_def scene_a_objs scene_a_next_id)
  have diff: "unit_tetrahedron \<noteq> far_tetrahedron"
    by (simp add: unit_tetrahedron_def far_tetrahedron_def)
  show ?thesis
    using frame out new diff
    by (simp add: get_object_def scene_a_objs scene_a_manager)
qed

text \<open>
  Claim C5 asks that \<^verbatim>\<open>get_transform\<close> return the transform of every registered name
  without error. For \<^verbatim>\<open>a\<close> registered and never passed to \<^verbatim>\<open>set_transform\<close> it
  raises \<^verbatim>\<open>KeyError\<close>, which is not the not-found error, and so does a relative
  \<^verbatim>\<open>set_transform\<close>.
\<close>

theorem get_transform_before_set_transform:
  "objs scene_a ''a'' \<noteq> None \<and>
   get_transform ''a'' scene_a = Inl (KeyError ''a'') \<and>
   get_transform ''a'' scene_a \<noteq> Inl (ValueError (''a'' @ '' not in collision manager!'')) \<and>
   set_transform exact ''a'' (translation_matrix 0 0 1) True scene_a
     = (Some (KeyError ''a''), scene_a)"
  by (simp add: get_transform_def set_transform_def scene_a_objs scene_a_applied)

text \<open>
  What does hold of the two methods: the not-found error is raised exactly for an
  unregistered name, and the state is untouched then.
\<close>

lemma not_found_exactly:
  "(fst (set_transform ext name t rel s)
      = Some (ValueError (name @ '' not in collision manager!''))
      \<longleftrightarrow> objs s name = None) \<and>
   (get_transform name s = Inl (ValueError (name @ '' not in collision manager!''))
      \<longleftrightarrow> objs s name = None) \<and>
   (objs s name = None \<longrightarrow> snd (set_transform ext name t rel s) = s)"
proof (cases "objs s name")
  case None
  then show ?thesis
    by (simp add: set_transform_not_found get_transform_not_found_iff)
next
  case (Some d)
  with set_transform_found_error [OF Some, of ext t rel] show ?thesis
    by (simp add: get_transform_not_found_iff)
qed

subsection \<open>Agreement once a transform is set\<close>

lemma pose_after_move:
  "hp h = Some ob \<Longrightarrow>
     map_option (\<lambda>ob. (rotation ob, translation ob))
       (setTranslation h p (setRotation h r hp) h) = Some (r, p)"
  by (simp add: setTranslation_def setRotation_def)

text \<open>
  Once \<^verbatim>\<open>set_transform\<close> has been called, the three agree, and they stay in agreement
  as far as rounding allows: if the mesh of \<open>name\<close> is \<open>base\<close> moved by the recorded
  transform \<open>t0\<close> (or is \<open>base\<close> itself with nothing recorded yet), and undoing \<open>t0\<close>
  restores \<open>base\<close>, then after a call that sets the absolute transform \<open>t\<close> the collision
  object is placed at \<open>t\<close>, \<open>t\<close> is recorded, and the mesh is \<open>base\<close> moved by \<open>t\<close>.
\<close>

lemma first_transform_in_sync:
  assumes "objs s name = Some d" and "heap s (obj d) = Some ob"
    and "applied_transforms s name = None"
  shows "fst (set_transform ext name t False s) = None \<and>
         get_transform name (snd (set_transform ext name t False s)) = Inr t \<and>
         map_option (\<lambda>ob. (rotation ob, translation ob))
           (heap (snd (set_transform ext name t False s)) (obj d))
           = Some (slice_rotation t, slice_translation t) \<and>
         get_object name (snd (set_transform ext name t False s))
           = Some (mesh_apply_transform ext t (mesh d))"
  using assms
  by (simp add: set_transform_def get_transform_def get_object_def Let_def
      pose_after_move [of "heap s" "obj d" ob])

lemma later_transform_in_sync:
  assumes reg: "objs s name = Some d" and hp: "heap s (obj d) = Some ob"
    and app: "applied_transforms s name = Some t0"
    and inv: "np_linalg_inv ext t0 = Some ti"
    and msh: "mesh d = mesh_apply_transform ext t0 base"
    and undo: "mesh_apply_transform ext ti (mesh_apply_transform ext t0 base) = base"
    and t: "t = (if rel then np_matmul ext x t0 else x)"
  shows "fst (set_transform ext name x rel s) = None \<and>
         get_transform name (snd (set_transform ext name x rel s)) = Inr t \<and>
         map_option (\<lambda>ob. (rotation ob, translation ob))
           (heap (snd (set_transform ext name x rel s)) (obj d))
           = Some (slice_rotation t, slice_translation t) \<and>
         get_object name (snd (set_transform ext name x rel s))
           = Some (mesh_apply_transform ext t base)"
  by (cases rel)
     (simp_all add: set_transform_def get_transform_def get_object_def Let_def
        reg app inv msh undo t pose_after_move [of "heap s" "obj d" ob, OF hp])

subsection \<open>Poses\<close>

text \<open>
  In exact arithmetic the hypotheses of the relative composition law hold wherever only
  poses are used: a matrix with bottom row (0, 0, 0, 1) has the determinant of its 3x3
  block, which for a rotation is 1; products of such matrices are such matrices again;
  and so every transform recorded after calls with poses is one.
\<close>

lemma det4_homogeneous:
  "det4 (Mat4 (Vec4 x0 x1 x2 x3) (Vec4 y0 y1 y2 y3) (Vec4 z0 z1 z2 z3) (Vec4 0 0 0 1)) =
     det3 x0 x1 x2 y0 y1 y2 z0 z1 z2"
  by (simp add: det3_def algebra_simps)

lemma invertible_homogeneous_matmul:
  assumes "invertible_homogeneous a" and "invertible_homogeneous b"
  shows "invertible_homogeneous (matmul a b)"
proof -
  obtain q0 q1 q2 q3 where a: "a = Mat4 q0 q1 q2 q3" by (cases a)
  obtain e0 e1 e2 e3 where q0: "q0 = Vec4 e0 e1 e2 e3" by (cases q0)
  obtain f0 f1 f2 f3 where q1: "q1 = Vec4 f0 f1 f2 f3" by (cases q1)
  obtain g0 g1 g2 g3 where q2: "q2 = Vec4 g0 g1 g2 g3" by (cases q2)
  obtain r0 r1 r2 r3 where b: "b = Mat4 r0 r1 r2 r3" by (cases b)
  obtain a0 a1 a2 a3 where r0: "r0 = Vec4 a0 a1 a2 a3" by (cases r0)
  obtain b0 b1 b2 b3 where r1: "r1 = Vec4 b0 b1 b2 b3" by (cases r1)
  obtain c0 c1 c2 c3 where r2: "r2 = Vec4 c0 c1 c2 c3" by (cases r2)
  from assms have q3: "q3 = Vec4 0 0 0 1" and r3: "r3 = Vec4 0 0 0 1"
    by (simp_all add: invertible_homogeneous_def a b)
  from assms(1) have da: "det3 e0 e1 e2 f0 f1 f2 g0 g1 g2 \<noteq> 0"
    unfolding invertible_homogeneous_def a q0 q1 q2 q3 by (simp only: det4_homogeneous) simp
  from assms(2) have db: "det3 a0 a1 a2 b0 b1 b2 c0 c1 c2 \<noteq> 0"
    unfolding invertible_homogeneous_def b r0 r1 r2 r3 by (simp only: det4_homogeneous) simp
  have prod: "matmul a b =
      Mat4 (Vec4 (e0 * a0 + e1 * b0 + e2 * c0) (e0 * a1 + e1 * b1 + e2 * c1)
                 (e0 * a2 + e1 * b2 + e2 * c2) (e0 * a3 + e1 * b3 + e2 * c3 + e3))
           (Vec4 (f0 * a0 + f1 * b0 + f2 * c0) (f0 * a1 + f1 * b1 + f2 * c1)
                 (f0 * a2 + f1 * b2 + f2 * c2) (f0 * a3 + f1 * b3 + f2 * c3 + f3))
           (Vec4 (g0 * a0 + g1 * b0 + g2 * c0) (g0 * a1 + g1 * b1 + g2 * c1)
                 (g0 * a2 + g1 * b2 + g2 * c2) (g0 * a3 + g1 * b3 + g2 * c3 + g3))
           (Vec4 0 0 0 1)"
    unfolding a b q0 q1 q2 q3 r0 r1 r2 r3 by (simp add: row_times_def)
  have mult: "det3 (e0 * a0 + e1 * b0 + e2 * c0) (e0 * a1 + e1 * b1 + e2 * c1)
                   (e0 * a2 + e1 * b2 + e2 * c2)
                   (f0 * a0 + f1 * b0 + f2 * c0) (f0 * a1 + f1 * b1 + f2 * c1)
                   (f0 * a2 + f1 * b2 + f2 * c2)
                   (g0 * a0 + g1 * b0 + g2 * c0) (g0 * a1 + g1 * b1 + g2 * c1)
                   (g0 * a2 + g1 * b2 + g2 * c2) =
              det3 e0 e1 e2 f0 f1 f2 g0 g1 g2 * det3 a0 a1 a2 b0 b1 b2 c0 c1 c2"
    by (simp add: det3_def algebra_simps)
  show ?thesis
    unfolding invertible_homogeneous_def prod
    by (simp only: det4_homogeneous mult bottom_row.simps) (simp add: da db)
qed

lemma set_transform_recorded_poses:
  assumes old: "\<And>n p. applied_transforms s n = Some p \<Longrightarrow> invertible_homogeneous p"
    and arg: "invertible_homogeneous x"
    and new: "applied_transforms (snd (set_transform exact name x rel s)) n = Some p"
  shows "invertible_homogeneous p"
proof (cases "objs s name")
  case None
  with new old show ?thesis by (simp add: set_transform_def)
next
  case (Some d)
  show ?thesis
  proof (cases "applied_transforms s name")
    case None
    with Some new old arg show ?thesis
      by (cases rel) (auto simp: set_transform_def exact_simps Let_def split: if_splits)
  next
    case app: (Some t0)
    from old [OF app] have p0: "invertible_homogeneous t0" .
    then have "det4 t0 \<noteq> 0" by (simp add: invertible_homogeneous_def)
    then obtain ti where ti: "linalg_inv t0 = Some ti" by (simp add: linalg_inv_def)
    from invertible_homogeneous_matmul [OF arg p0] arg new old Some app ti show ?thesis
      by (cases rel) (auto simp: set_transform_def exact_simps Let_def split: if_splits)
  qed
qed

lemma run_recorded_poses:
  assumes "\<And>n p. applied_transforms s n = Some p \<Longrightarrow> invertible_homogeneous p"
    and "\<And>name t r. SetTransform name t r \<in> set cs \<Longrightarrow> invertible_homogeneous t"
    and "applied_transforms (run exact cs s) n = Some p"
  shows "invertible_homogeneous p"
  using assms
proof (induction cs arbitrary: s)
  case Nil
  then show ?case by simp
next
  case (Cons c cs)
  have step: "\<And>n p. applied_transforms (exec exact c s) n = Some p \<Longrightarrow> invertible_homogeneous p"
  proof (cases c)
    case (AddObject name msh tr)
    fix n p assume "applied_transforms (exec exact c s) n = Some p"
    with AddObject Cons.prems(1) show "invertible_homogeneous p"
      by (simp add: add_object_applied)
  next
    case (SetTransform name t r)
    fix n p assume new: "applied_transforms (exec exact c s) n = Some p"
    from Cons.prems(2) [of name t r] SetTransform have "invertible_homogeneous t" by simp
    from set_transform_recorded_poses [OF Cons.prems(1) this] new SetTransform
    show "invertible_homogeneous p" by simp
  qed
  show ?case
  proof (rule Cons.IH [OF step])
    show "\<And>name t r. SetTransform name t r \<in> set cs \<Longrightarrow> invertible_homogeneous t"
      using Cons.prems(2) by (meson list.set_intros(2))
    show "applied_transforms (run exact cs (exec exact c s)) n = Some p"
      using Cons.prems(3) by simp
  qed
qed

text \<open>
  In every state reached from a fresh manager by calls whose transforms are poses, the
  recorded transform of every name is one the undo step can invert.
\<close>

lemma poses_keep_recorded_invertible:
  assumes "\<And>name t r. SetTransform name t r \<in> set cs \<Longrightarrow> invertible_homogeneous t"
  shows "recorded_invertible exact (run exact cs (init_manager margin)) n"
proof (cases "applied_transforms (run exact cs (init_manager margin)) n")
  case None
  then show ?thesis by (simp add: recorded_invertible_def)
next
  case (Some p)
  have "invertible_homogeneous p"
    by (rule run_recorded_poses [OF _ assms Some]) (simp_all add: init_manager_def)
  with Some show ?thesis
    by (simp add: recorded_invertible_def invertible_homogeneous_def exact_simps linalg_inv_def)
qed

end
